theory Spec2Isabelle
  imports Complex_Main
begin

section \<open>Values of the request body\<close>

text \<open>
  The routes of \<^verbatim>\<open>traffic.routes\<close> read JSON bodies. A property that may be missing is an
  \<open>option\<close> (\<open>None\<close> is JavaScript's \<^verbatim>\<open>undefined\<close>), a JSON number is a \<open>real\<close> (the
  comparisons of the handlers are read as comparisons of the numbers the decimal literals
  denote; rounding of doubles is outside the model), a string is a \<open>string\<close>.
  The three helpers below are the JavaScript coercions the handlers rely on:
  the truth value of a flag, the truth value of a string, and \<^verbatim>\<open>x >= k\<close> on a number that
  may be \<^verbatim>\<open>undefined\<close> (the comparison is then false).
\<close>

definition truthy_flag :: "bool option \<Rightarrow> bool" where
  "truthy_flag v = (case v of None \<Rightarrow> False | Some f \<Rightarrow> f)"

definition truthy_string :: "string option \<Rightarrow> bool" where
  "truthy_string v = (case v of None \<Rightarrow> False | Some w \<Rightarrow> w \<noteq> [])"

definition num_ge :: "real option \<Rightarrow> real \<Rightarrow> bool" where
  "num_ge v k = (case v of None \<Rightarrow> False | Some c \<Rightarrow> k \<le> c)"

text \<open>A template literal prints a missing value as the word \<^verbatim>\<open>undefined\<close>.\<close>

definition template_string :: "string option \<Rightarrow> string" where
  "template_string v = (case v of None \<Rightarrow> ''undefined'' | Some w \<Rightarrow> w)"

text \<open>\<^verbatim>\<open>String.prototype.toLowerCase\<close>, on the letters A to Z.\<close>

definition toLowerCase_char :: "char \<Rightarrow> char" where
  "toLowerCase_char c =
     (case map_of (zip ''ABCDEFGHIJKLMNOPQRSTUVWXYZ'' ''abcdefghijklmnopqrstuvwxyz'') c of
        Some d \<Rightarrow> d
      | None \<Rightarrow> c)"

definition toLowerCase :: "string \<Rightarrow> string" where
  "toLowerCase w = map toLowerCase_char w"

text \<open>
  The answer of the classifier service to \<^verbatim>\<open>POST /predict\<close>, as \<^verbatim>\<open>/api/traffic/analyze\<close> reads
  it. A reply with status 2xx whose body lacks these properties is a prediction with every
  field missing; a call that \<^verbatim>\<open>axios\<close> rejects is a \<open>gateway_error\<close>.
\<close>

record prediction =
  is_attack :: "bool option"
  attack_type :: "string option"
  confidence :: "real option"
  anomaly_score :: "real option"

datatype gateway_error = Gateway_unreachable | Gateway_timeout | Gateway_bad_status nat

text \<open>The body of \<^verbatim>\<open>POST /api/traffic/log\<close>, as the handler destructures it.\<close>

record log_body =
  src_ip :: "string option"
  dst_ip :: "string option"
  src_port :: "int option"
  dst_port :: "int option"
  protocol :: "string option"
  packet_size :: "int option"
  is_attack :: "bool option"
  predicted_class :: "string option"
  confidence :: "real option"
  state :: "string option"

section \<open>The models\<close>

text \<open>
  One record per Sequelize model, with the attributes the two ingestion routes write or
  read. Times are milliseconds. The flow-statistics columns of \<^verbatim>\<open>TrafficLog\<close>, the free-text
  \<^verbatim>\<open>description\<close> of an alert and the columns of \<^verbatim>\<open>BlockedIP\<close> that no route sets are left out.
\<close>

record traffic_log =
  id_traffic :: nat
  timestamp :: int
  srcIp :: "string option"
  dstIp :: "string option"
  srcPort :: "int option"
  dstPort :: "int option"
  protocol :: "string option"
  packetSize :: "int option"
  isAttack :: "bool option"
  attackType :: "string option"
  confidenceScore :: "real option"
  anomalyScore :: "real option"
  trafficState :: string

record alert =
  id_alert :: string
  trafficLogId :: "nat option"
  alertType :: string
  severity :: int
  title :: string
  attackCategory :: "string option"
  status :: string
  assignedTo :: "string option"
  resolvedAt :: "int option"
  autoBlocked :: bool
  created_at :: int

record blocked_ip =
  id_block :: string
  ipAddress :: "string option"
  reason :: string
  blockedBy :: "string option"
  blockType :: string
  blockedAt :: int
  expiresAt :: "int option"
  unblockedAt :: "int option"

text \<open>The attribute defaults of the model definitions (\<^verbatim>\<open>defaultValue\<close>).\<close>

definition TrafficLog_defaults :: traffic_log where
  "TrafficLog_defaults =
     \<lparr> id_traffic = 0, timestamp = 0, srcIp = None, dstIp = None, srcPort = None,
       dstPort = None, protocol = None, packetSize = None, isAttack = None,
       attackType = None, confidenceScore = None, anomalyScore = None,
       trafficState = ''normal'' \<rparr>"

definition Alert_defaults :: alert where
  "Alert_defaults =
     \<lparr> id_alert = [], trafficLogId = None, alertType = [], severity = 0, title = [],
       attackCategory = None, status = ''open'', assignedTo = None, resolvedAt = None,
       autoBlocked = False, created_at = 0 \<rparr>"

definition BlockedIP_defaults :: blocked_ip where
  "BlockedIP_defaults =
     \<lparr> id_block = [], ipAddress = None, reason = [], blockedBy = None,
       blockType = ''temporary'', blockedAt = 0, expiresAt = None, unblockedAt = None \<rparr>"

section \<open>The store\<close>

record store =
  traffic_logs :: "traffic_log list"
  traffic_seq :: nat
  alerts :: "alert list"
  blocked_ips :: "blocked_ip list"

definition empty_store :: store where
  "empty_store = \<lparr> traffic_logs = [], traffic_seq = 0, alerts = [], blocked_ips = [] \<rparr>"

datatype store_op =
  TrafficLog_create_op | Alert_create_op | BlockedIP_findOne_op | BlockedIP_create_op

datatype store_error =
    NotNullViolation string
  | ValidationFailed string
  | InvalidEnumValue string
  | NumericValueOutOfRange string
  | UniqueConstraintError string
  | ConnectionError

text \<open>
  What a request takes from its surroundings: the authenticated user (\<^verbatim>\<open>req.user.id\<close>), the
  clock (\<^verbatim>\<open>Date.now()\<close> in the handler, and the \<^verbatim>\<open>NOW\<close> default of each row it creates), the
  UUIDs drawn for new rows, and the store operations at which the database cannot be
  reached.
\<close>

record env =
  user_id :: string
  date_now :: int
  now_traffic :: int
  now_alert :: int
  now_block :: int
  uuid_alert :: string
  uuid_block :: string
  unreachable :: "store_op set"

text \<open>
  \<^verbatim>\<open>Model.create\<close>: Sequelize rejects a \<^verbatim>\<open>null\<close> in an \<^verbatim>\<open>allowNull: false\<close> attribute and a
  value outside \<^verbatim>\<open>validate: {min, max}\<close> before it sends the row; the database rejects a
  value outside an \<^verbatim>\<open>ENUM\<close>, an \<^verbatim>\<open>INTEGER\<close> outside 32 bits and a second row with the same
  \<^verbatim>\<open>unique\<close> value. The syntax of \<^verbatim>\<open>INET\<close> literals, the length of \<^verbatim>\<open>STRING(n)\<close>, foreign keys
  and a collision of two UUIDs are not modelled.
\<close>

definition integer_column_value :: "int option \<Rightarrow> bool" where
  "integer_column_value v =
     (case v of None \<Rightarrow> True | Some n \<Rightarrow> - 2147483648 \<le> n \<and> n \<le> 2147483647)"

definition TrafficLog_create ::
  "env \<Rightarrow> traffic_log \<Rightarrow> store \<Rightarrow> store_error + (traffic_log \<times> store)" where
  "TrafficLog_create e v s =
     (if srcIp v = None then Inl (NotNullViolation ''TrafficLog.srcIp cannot be null'')
      else if dstIp v = None then Inl (NotNullViolation ''TrafficLog.dstIp cannot be null'')
      else if traffic_log.protocol v = None
        then Inl (NotNullViolation ''TrafficLog.protocol cannot be null'')
      else if TrafficLog_create_op \<in> unreachable e then Inl ConnectionError
      else if \<not> integer_column_value (srcPort v) then Inl (NumericValueOutOfRange ''src_port'')
      else if \<not> integer_column_value (dstPort v) then Inl (NumericValueOutOfRange ''dst_port'')
      else if \<not> integer_column_value (packetSize v)
        then Inl (NumericValueOutOfRange ''packet_size'')
      else if trafficState v \<notin> set [''normal'', ''suspicious'', ''attack'', ''blocked'']
        then Inl (InvalidEnumValue (trafficState v))
      else
        (let row = v\<lparr>id_traffic := Suc (traffic_seq s), timestamp := now_traffic e\<rparr>
         in Inr (row, s\<lparr>traffic_logs := traffic_logs s @ [row],
                         traffic_seq := Suc (traffic_seq s)\<rparr>)))"

definition Alert_create ::
  "env \<Rightarrow> alert \<Rightarrow> store \<Rightarrow> store_error + (alert \<times> store)" where
  "Alert_create e v s =
     (if severity v < 1 \<or> 5 < severity v then Inl (ValidationFailed ''severity'')
      else if Alert_create_op \<in> unreachable e then Inl ConnectionError
      else if status v \<notin> set [''open'', ''investigating'', ''resolved'', ''false_positive'']
        then Inl (InvalidEnumValue (status v))
      else
        (let row = v\<lparr>id_alert := uuid_alert e, created_at := now_alert e\<rparr>
         in Inr (row, s\<lparr>alerts := alerts s @ [row]\<rparr>)))"

text \<open>\<^verbatim>\<open>BlockedIP.findOne({where: {ipAddress, unblockedAt: null}})\<close>.\<close>

definition BlockedIP_findOne_active ::
  "env \<Rightarrow> string option \<Rightarrow> store \<Rightarrow> store_error + blocked_ip option" where
  "BlockedIP_findOne_active e ip s =
     (if BlockedIP_findOne_op \<in> unreachable e then Inl ConnectionError
      else Inr (find (\<lambda>r. ipAddress r = ip \<and> unblockedAt r = None) (blocked_ips s)))"

definition BlockedIP_create ::
  "env \<Rightarrow> blocked_ip \<Rightarrow> store \<Rightarrow> store_error + (blocked_ip \<times> store)" where
  "BlockedIP_create e v s =
     (if ipAddress v = None then Inl (NotNullViolation ''BlockedIP.ipAddress cannot be null'')
      else if BlockedIP_create_op \<in> unreachable e then Inl ConnectionError
      else if blockType v \<notin> set [''temporary'', ''permanent'']
        then Inl (InvalidEnumValue (blockType v))
      else if ipAddress v \<in> set (map ipAddress (blocked_ips s))
        then Inl (UniqueConstraintError ''ip_address must be unique'')
      else
        (let row = v\<lparr>id_block := uuid_block e, blockedAt := now_block e\<rparr>
         in Inr (row, s\<lparr>blocked_ips := blocked_ips s @ [row]\<rparr>)))"

section \<open>POST /api/traffic/log\<close>

datatype event = New_alert alert | New_traffic traffic_log

text \<open>
  The two JSON answers of the route: \<^verbatim>\<open>{success: true, trafficLog, alertCreated}\<close>, and the
  answer of the \<^verbatim>\<open>catch\<close> block with its HTTP status, \<^verbatim>\<open>error\<close>, \<^verbatim>\<open>message\<close> and \<^verbatim>\<open>details\<close>.
\<close>

datatype log_response =
    Log_ok traffic_log bool
  | Log_failed nat string string store_error

definition log_catch :: "store_error \<Rightarrow> log_response" where
  "log_catch err = Log_failed 500 ''LogError'' ''Failed to log traffic'' err"

text \<open>The argument of \<^verbatim>\<open>TrafficLog.create\<close>.\<close>

definition log_traffic_values :: "log_body \<Rightarrow> traffic_log" where
  "log_traffic_values b =
     TrafficLog_defaults
       \<lparr> srcIp := src_ip b,
         dstIp := dst_ip b,
         srcPort := src_port b,
         dstPort := dst_port b,
         protocol := log_body.protocol b,
         packetSize := packet_size b,
         isAttack := is_attack b,
         attackType := (if predicted_class b \<noteq> Some ''BENIGN'' then predicted_class b else None),
         confidenceScore := confidence b,
         trafficState :=
           (if truthy_string (state b)
            then (if toLowerCase (the (state b)) = ''active''
                  then (if truthy_flag (is_attack b) then ''attack'' else ''normal'')
                  else toLowerCase (the (state b)))
            else (if truthy_flag (is_attack b) then ''attack'' else ''normal'')) \<rparr>"

text \<open>The argument of \<^verbatim>\<open>Alert.create\<close>.\<close>

definition log_alert_values :: "log_body \<Rightarrow> traffic_log \<Rightarrow> alert" where
  "log_alert_values b t =
     Alert_defaults
       \<lparr> trafficLogId := Some (id_traffic t),
         alertType := (if num_ge (confidence b) 0.8 then ''CRITICAL'' else ''HIGH''),
         severity := (if num_ge (confidence b) 0.9 then 5
                      else if num_ge (confidence b) 0.7 then 4 else 3),
         title := template_string (predicted_class b) @ '' detected from ''
                    @ template_string (src_ip b),
         attackCategory := predicted_class b,
         status := ''open'' \<rparr>"

text \<open>The argument of \<^verbatim>\<open>BlockedIP.create\<close>; 24 hours are \<open>24 * 60 * 60 * 1000\<close> ms.\<close>

definition log_block_values :: "env \<Rightarrow> log_body \<Rightarrow> blocked_ip" where
  "log_block_values e b =
     BlockedIP_defaults
       \<lparr> ipAddress := src_ip b,
         reason := ''Automated block: '' @ template_string (predicted_class b)
                     @ '' attack detected'',
         blockedBy := Some (user_id e),
         expiresAt := Some (date_now e + 24 * 60 * 60 * 1000) \<rparr>"

text \<open>
  The handler is asynchronous: it gives up control at each \<^verbatim>\<open>await\<close>, and the store operation
  it waits for is one atomic step on the shared store. A request in flight is at one of
  these points, holding the local variables it has bound so far.
\<close>

datatype log_pc =
    Await_TrafficLog_create
  | Await_Alert_create traffic_log
  | Await_BlockedIP_findOne traffic_log alert
  | Await_BlockedIP_create traffic_log alert
  | Responded log_response "event list"

text \<open>The tail of the handler after the \<^verbatim>\<open>if\<close> block: emit the traffic event and answer.\<close>

definition log_finish :: "log_body \<Rightarrow> traffic_log \<Rightarrow> event list \<Rightarrow> log_pc" where
  "log_finish b t evs =
     Responded (Log_ok t (truthy_flag (is_attack b) \<and> num_ge (confidence b) 0.5))
       (evs @ [New_traffic t])"

fun log_step :: "env \<Rightarrow> log_body \<Rightarrow> log_pc \<Rightarrow> store \<Rightarrow> log_pc \<times> store" where
  "log_step e b Await_TrafficLog_create s =
     (case TrafficLog_create e (log_traffic_values b) s of
        Inl err \<Rightarrow> (Responded (log_catch err) [], s)
      | Inr (t, s') \<Rightarrow>
          (if truthy_flag (is_attack b) \<and> num_ge (confidence b) 0.5
           then (Await_Alert_create t, s')
           else (log_finish b t [], s')))"
| "log_step e b (Await_Alert_create t) s =
     (case Alert_create e (log_alert_values b t) s of
        Inl err \<Rightarrow> (Responded (log_catch err) [], s)
      | Inr (a, s') \<Rightarrow>
          (if num_ge (confidence b) 0.7
           then (Await_BlockedIP_findOne t a, s')
           else (log_finish b t [New_alert a], s')))"
| "log_step e b (Await_BlockedIP_findOne t a) s =
     (case BlockedIP_findOne_active e (src_ip b) s of
        Inl err \<Rightarrow> (Responded (log_catch err) [], s)
      | Inr existingBlock \<Rightarrow>
          (if existingBlock = None
           then (Await_BlockedIP_create t a, s)
           else (log_finish b t [New_alert a], s)))"
| "log_step e b (Await_BlockedIP_create t a) s =
     (case BlockedIP_create e (log_block_values e b) s of
        Inl err \<Rightarrow> (Responded (log_catch err) [], s)
      | Inr (blk, s') \<Rightarrow> (log_finish b t [New_alert a], s'))"
| "log_step e b (Responded r evs) s = (Responded r evs, s)"

text \<open>
  One request running alone: the four awaits in a row. A request that has answered stays
  where it is, so shorter paths through the handler are covered.
\<close>

definition log_run :: "env \<Rightarrow> log_body \<Rightarrow> log_pc \<times> store \<Rightarrow> log_pc \<times> store" where
  "log_run e b = (\<lambda>(pc, s). log_step e b pc s)"

definition log_handler :: "env \<Rightarrow> log_body \<Rightarrow> store \<Rightarrow> log_pc \<times> store" where
  "log_handler e b s =
     log_run e b (log_run e b (log_run e b (log_run e b (Await_TrafficLog_create, s))))"

text \<open>
  Requests run concurrently on one event loop: between two awaits of one request, steps of
  other requests may run. A schedule names, step by step, the request that moves next.
\<close>

fun interleave ::
  "(env \<times> log_body) list \<Rightarrow> nat list \<Rightarrow> log_pc list \<times> store \<Rightarrow> log_pc list \<times> store" where
  "interleave reqs [] cfg = cfg"
| "interleave reqs (i # sched) (pcs, s) =
     (if i < length reqs \<and> i < length pcs
      then (case log_step (fst (reqs ! i)) (snd (reqs ! i)) (pcs ! i) s of
              (pc', s') \<Rightarrow> interleave reqs sched (pcs[i := pc'], s'))
      else interleave reqs sched (pcs, s))"

section \<open>POST /api/traffic/analyze\<close>

datatype analyze_failure = Gateway_failure gateway_error | Store_failure store_error

datatype analyze_response =
    Analyze_ok traffic_log prediction
  | Analyze_failed nat string string analyze_failure

definition analyze_catch :: "analyze_failure \<Rightarrow> analyze_response" where
  "analyze_catch err = Analyze_failed 500 ''AnalysisError'' ''Failed to analyze traffic'' err"

text \<open>
  The argument of \<^verbatim>\<open>TrafficLog.create\<close>: the body spread into the object, then the fields of
  the prediction. The body is given by the \<^verbatim>\<open>TrafficLog\<close> attributes it carries.
\<close>

definition analyze_traffic_values :: "traffic_log \<Rightarrow> prediction \<Rightarrow> traffic_log" where
  "analyze_traffic_values trafficData p =
     trafficData
       \<lparr> isAttack := prediction.is_attack p,
         attackType := attack_type p,
         confidenceScore := prediction.confidence p,
         anomalyScore := anomaly_score p,
         trafficState := (if truthy_flag (prediction.is_attack p) then ''attack'' else ''normal'') \<rparr>"

definition analyze_alert_values :: "traffic_log \<Rightarrow> prediction \<Rightarrow> traffic_log \<Rightarrow> alert" where
  "analyze_alert_values trafficData p t =
     Alert_defaults
       \<lparr> trafficLogId := Some (id_traffic t),
         alertType := ''HIGH'',
         severity := (if num_ge (prediction.confidence p) 0.95 then 5 else 4),
         title := template_string (attack_type p) @ '' attack detected from ''
                    @ template_string (srcIp trafficData),
         attackCategory := attack_type p \<rparr>"

text \<open>
  The handler, run alone. \<open>ml\<close> is the outcome of the call to the classifier (timeout 10 s);
  the \<^verbatim>\<open>authenticate\<close> and \<^verbatim>\<open>authorize\<close> middleware have let the request through.
\<close>

definition analyze_handler ::
  "env \<Rightarrow> gateway_error + prediction \<Rightarrow> traffic_log \<Rightarrow> store
     \<Rightarrow> (analyze_response \<times> event list) \<times> store" where
  "analyze_handler e ml trafficData s =
     (case ml of
        Inl g \<Rightarrow> ((analyze_catch (Gateway_failure g), []), s)
      | Inr p \<Rightarrow>
          (case TrafficLog_create e (analyze_traffic_values trafficData p) s of
             Inl err \<Rightarrow> ((analyze_catch (Store_failure err), []), s)
           | Inr (t, s1) \<Rightarrow>
               (if truthy_flag (prediction.is_attack p) \<and> num_ge (prediction.confidence p) 0.85
                then
                  (case Alert_create e (analyze_alert_values trafficData p t) s1 of
                     Inl err \<Rightarrow> ((analyze_catch (Store_failure err), []), s1)
                   | Inr (a, s2) \<Rightarrow> ((Analyze_ok t p, [New_alert a, New_traffic t]), s2))
                else ((Analyze_ok t p, [New_traffic t]), s1))))"

section \<open>Sample requests\<close>

text \<open>
  The first request of \<^verbatim>\<open>add-attacks.ps1\<close>, with the confidence left open, and surroundings in
  which the database answers every operation.
\<close>

definition ddos_body :: "real \<Rightarrow> log_body" where
  "ddos_body c =
     \<lparr> src_ip = Some ''192.168.1.100'', dst_ip = Some ''192.168.1.1'', src_port = Some 54321,
       dst_port = Some 80, protocol = Some ''TCP'', packet_size = Some 1500,
       is_attack = Some True, predicted_class = Some ''DDoS'', confidence = Some c,
       state = Some ''ACTIVE'' \<rparr>"

definition example_env :: env where
  "example_env =
     \<lparr> user_id = ''u-admin'', date_now = 1700000000000, now_traffic = 1700000000000,
       now_alert = 1700000000002, now_block = 1700000000005,
       uuid_alert = ''a-0001'', uuid_block = ''b-0001'', unreachable = {} \<rparr>"

text \<open>A sample counts as ingested by \<^verbatim>\<open>/log\<close> when its \<^verbatim>\<open>TrafficLog.create\<close> succeeds.\<close>

definition log_sample_persisted :: "env \<Rightarrow> log_body \<Rightarrow> store \<Rightarrow> bool" where
  "log_sample_persisted e b s =
     (case TrafficLog_create e (log_traffic_values b) s of Inl err \<Rightarrow> False | Inr r \<Rightarrow> True)"

definition log_succeeded :: "log_pc \<times> store \<Rightarrow> bool" where
  "log_succeeded out = (case fst out of Responded (Log_ok t alertCreated) evs \<Rightarrow> True | _ \<Rightarrow> False)"

section \<open>The unique index of BlockedIP\<close>

text \<open>
  \<^verbatim>\<open>ipAddress\<close> is declared \<^verbatim>\<open>unique: true\<close>: the table never holds two rows with one address.
  The active blocks of an address are its rows with \<^verbatim>\<open>unblockedAt\<close> null.
\<close>

definition ip_unique :: "store \<Rightarrow> bool" where
  "ip_unique s = distinct (map ipAddress (blocked_ips s))"

definition rows_of_ip :: "string option \<Rightarrow> store \<Rightarrow> blocked_ip list" where
  "rows_of_ip ip s = filter (\<lambda>r. ipAddress r = ip) (blocked_ips s)"

definition active_blocks :: "string option \<Rightarrow> store \<Rightarrow> blocked_ip list" where
  "active_blocks ip s = filter (\<lambda>r. ipAddress r = ip \<and> unblockedAt r = None) (blocked_ips s)"

text \<open>A block whose \<^verbatim>\<open>expiresAt\<close> is its \<^verbatim>\<open>blockedAt\<close> plus 24 hours, to the millisecond.\<close>

definition expires_24h_after_blockedAt :: "blocked_ip \<Rightarrow> bool" where
  "expires_24h_after_blockedAt r = (expiresAt r = Some (blockedAt r + 24 * 60 * 60 * 1000))"

text \<open>
  A second request of the same content, with its own clock readings and UUIDs, and a store
  whose only block of \<^verbatim>\<open>192.168.1.100\<close> has been lifted.
\<close>

definition example_env2 :: env where
  "example_env2 =
     \<lparr> user_id = ''u-admin'', date_now = 1700000000001, now_traffic = 1700000000001,
       now_alert = 1700000000003, now_block = 1700000000006,
       uuid_alert = ''a-0002'', uuid_block = ''b-0002'', unreachable = {} \<rparr>"

definition lifted_block_store :: store where
  "lifted_block_store =
     empty_store
       \<lparr> blocked_ips :=
           [BlockedIP_defaults
              \<lparr> id_block := ''b-0000'', ipAddress := Some ''192.168.1.100'',
                reason := ''Manual block'', blockedAt := 1600000000000,
                unblockedAt := Some 1600000500000 \<rparr>] \<rparr>"




section \<open>The handler of /log, run alone\<close>

text \<open>Run without interference, the four steps are the handler as the source writes it.\<close>

lemma log_handler_sequential:
  "log_handler e b s =
     (case TrafficLog_create e (log_traffic_values b) s of
        Inl err \<Rightarrow> (Responded (log_catch err) [], s)
      | Inr (t, s1) \<Rightarrow>
          if \<not> (truthy_flag (is_attack b) \<and> num_ge (confidence b) 0.5)
          then (log_finish b t [], s1)
          else
            (case Alert_create e (log_alert_values b t) s1 of
               Inl err \<Rightarrow> (Responded (log_catch err) [], s1)
             | Inr (a, s2) \<Rightarrow>
                 if \<not> num_ge (confidence b) 0.7
                 then (log_finish b t [New_alert a], s2)
                 else
                   (case BlockedIP_findOne_active e (src_ip b) s2 of
                      Inl err \<Rightarrow> (Responded (log_catch err) [], s2)
                    | Inr existingBlock \<Rightarrow>
                        if existingBlock \<noteq> None
                        then (log_finish b t [New_alert a], s2)
                        else
                          (case BlockedIP_create e (log_block_values e b) s2 of
                             Inl err \<Rightarrow> (Responded (log_catch err) [], s2)
                           | Inr (blk, s3) \<Rightarrow> (log_finish b t [New_alert a], s3)))))"
  by (simp add: log_handler_def log_run_def log_finish_def split: sum.splits prod.splits)

text \<open>The handler always answers: four steps are enough on every path.\<close>

lemma log_handler_responds: "\<exists>r evs. fst (log_handler e b s) = Responded r evs"
  by (simp add: log_handler_sequential log_finish_def split: sum.splits prod.splits)

lemma interleave_alone:
  "interleave [(e, b)] [0, 0, 0, 0] ([Await_TrafficLog_create], s) =
     ([fst (log_handler e b s)], snd (log_handler e b s))"
  by (simp add: log_handler_def log_run_def split: prod.splits)

subsection \<open>What a successful create leaves behind\<close>

lemma TrafficLog_create_Inr:
  "TrafficLog_create e v s = Inr (t, s1) \<Longrightarrow>
     t = v\<lparr>id_traffic := Suc (traffic_seq s), timestamp := now_traffic e\<rparr> \<and>
     s1 = s\<lparr>traffic_logs := traffic_logs s @ [t], traffic_seq := Suc (traffic_seq s)\<rparr>"
  by (auto simp: TrafficLog_create_def Let_def split: if_splits)

lemma Alert_create_Inr:
  "Alert_create e v s = Inr (a, s1) \<Longrightarrow>
     a = v\<lparr>id_alert := uuid_alert e, created_at := now_alert e\<rparr> \<and>
     s1 = s\<lparr>alerts := alerts s @ [a]\<rparr>"
  by (auto simp: Alert_create_def Let_def split: if_splits)

lemma BlockedIP_create_Inr:
  "BlockedIP_create e v s = Inr (r, s1) \<Longrightarrow>
     r = v\<lparr>id_block := uuid_block e, blockedAt := now_block e\<rparr> \<and>
     s1 = s\<lparr>blocked_ips := blocked_ips s @ [r]\<rparr> \<and>
     ipAddress v \<noteq> None \<and> ipAddress v \<notin> set (map ipAddress (blocked_ips s))"
  by (auto simp: BlockedIP_create_def Let_def split: if_splits)

text \<open>The alert the handler builds passes every check of \<^verbatim>\<open>Alert.create\<close>.\<close>

lemma Alert_create_log_values:
  "Alert_create e (log_alert_values b t) s =
     (if Alert_create_op \<in> unreachable e then Inl ConnectionError
      else Inr ((log_alert_values b t)\<lparr>id_alert := uuid_alert e, created_at := now_alert e\<rparr>,
                s\<lparr>alerts := alerts s @
                   [(log_alert_values b t)\<lparr>id_alert := uuid_alert e, created_at := now_alert e\<rparr>]\<rparr>))"
  by (simp add: Alert_create_def log_alert_values_def Alert_defaults_def Let_def)

lemma log_handler_traffic_logs:
  "traffic_logs (snd (log_handler e b s)) =
     (case TrafficLog_create e (log_traffic_values b) s of
        Inl err \<Rightarrow> traffic_logs s
      | Inr (t, s1) \<Rightarrow> traffic_logs s @ [t])"
  by (auto simp: log_handler_sequential Alert_create_log_values log_finish_def
        BlockedIP_findOne_active_def
        dest!: TrafficLog_create_Inr BlockedIP_create_Inr split: sum.splits prod.splits)

lemma log_handler_alerts:
  "alerts (snd (log_handler e b s)) =
     (case TrafficLog_create e (log_traffic_values b) s of
        Inl err \<Rightarrow> alerts s
      | Inr (t, s1) \<Rightarrow>
          if truthy_flag (is_attack b) \<and> num_ge (confidence b) 0.5 \<and>
             Alert_create_op \<notin> unreachable e
          then alerts s @
                 [(log_alert_values b t)\<lparr>id_alert := uuid_alert e, created_at := now_alert e\<rparr>]
          else alerts s)"
  by (auto simp: log_handler_sequential Alert_create_log_values log_finish_def
        BlockedIP_findOne_active_def
        dest!: TrafficLog_create_Inr BlockedIP_create_Inr split: sum.splits prod.splits)

lemma log_handler_blocked_ips:
  "blocked_ips (snd (log_handler e b s)) = blocked_ips s \<or>
   (truthy_flag (is_attack b) \<and> num_ge (confidence b) 0.7 \<and>
    find (\<lambda>r. ipAddress r = src_ip b \<and> unblockedAt r = None) (blocked_ips s) = None \<and>
    src_ip b \<notin> set (map ipAddress (blocked_ips s)) \<and>
    blocked_ips (snd (log_handler e b s)) =
      blocked_ips s @ [(log_block_values e b)\<lparr>id_block := uuid_block e, blockedAt := now_block e\<rparr>])"
  by (auto simp: log_handler_sequential log_finish_def BlockedIP_findOne_active_def
        log_block_values_def
        dest!: TrafficLog_create_Inr Alert_create_Inr BlockedIP_create_Inr
        split: sum.splits prod.splits if_splits)

text \<open>Unfolding the handler on a concrete request.\<close>

lemmas log_eval =
  log_handler_sequential TrafficLog_create_def Alert_create_def BlockedIP_findOne_active_def
  BlockedIP_create_def log_traffic_values_def log_alert_values_def log_block_values_def
  TrafficLog_defaults_def Alert_defaults_def BlockedIP_defaults_def log_finish_def log_catch_def
  truthy_flag_def truthy_string_def num_ge_def template_string_def toLowerCase_def
  toLowerCase_char_def ddos_body_def example_env_def empty_store_def Let_def
  log_sample_persisted_def log_succeeded_def integer_column_value_def

lemma ddos_persisted: "log_sample_persisted example_env (ddos_body c) empty_store"
  by (simp add: log_eval)

section \<open>Claims about /log\<close>

text \<open>
  C1. For a sample ingested by \<^verbatim>\<open>/log\<close> (its \<^verbatim>\<open>TrafficLog.create\<close> succeeded, and the store
  answers \<^verbatim>\<open>Alert.create\<close>), one alert is appended when the attack flag is true and the
  confidence is present and at least 0.5, and none otherwise: not when the flag is false or
  missing, not when the confidence is missing or below 0.5. The alert points at the new
  sample and has severity 5 from 0.9, 4 from 0.7 and 3 from 0.5, each bound included.
\<close>

theorem log_alert_iff_policy:
  assumes "log_sample_persisted e b s" and "Alert_create_op \<notin> unreachable e"
  shows "(is_attack b = Some True \<and> confidence b = Some c \<and> 0.5 \<le> c \<longrightarrow>
            (\<exists>a. alerts (snd (log_handler e b s)) = alerts s @ [a] \<and>
                 trafficLogId a = Some (Suc (traffic_seq s)) \<and>
                 severity a = (if 0.9 \<le> c then 5 else if 0.7 \<le> c then 4 else 3))) \<and>
         (is_attack b \<noteq> Some True \<or> confidence b = None \<or> (confidence b = Some c \<and> c < 0.5) \<longrightarrow>
            alerts (snd (log_handler e b s)) = alerts s)"
  using assms
  by (auto simp: log_handler_alerts log_sample_persisted_def truthy_flag_def num_ge_def
        log_alert_values_def Alert_defaults_def
        dest!: TrafficLog_create_Inr split: sum.splits prod.splits option.splits)

theorem log_alert_iff_policy_witness:
  "log_sample_persisted example_env (ddos_body 0.59) empty_store \<and>
   Alert_create_op \<notin> unreachable example_env \<and>
   (\<exists>a. alerts (snd (log_handler example_env (ddos_body 0.59) empty_store)) = [a] \<and>
        severity a = 3) \<and>
   (\<exists>a. alerts (snd (log_handler example_env (ddos_body 0.9) empty_store)) = [a] \<and>
        severity a = 5) \<and>
   alerts (snd (log_handler example_env (ddos_body 0.49) empty_store)) = []"
proof -
  have p: "log_sample_persisted example_env (ddos_body c) empty_store" for c
    by (rule ddos_persisted)
  have r: "Alert_create_op \<notin> unreachable example_env"
    by (simp add: example_env_def)
  show ?thesis
    using log_alert_iff_policy [OF p r, of "0.59" "0.59"]
      log_alert_iff_policy [OF p r, of "0.9" "0.9"]
      log_alert_iff_policy [OF p r, of "0.49" "0.49"] p r
    by (auto simp: ddos_body_def empty_store_def)
qed

text \<open>
  C2 as stated fails: at confidence 0.8999 the alert is labelled \<^verbatim>\<open>CRITICAL\<close>, not \<^verbatim>\<open>HIGH\<close>; the
  handler draws the line between the two labels at 0.8.
\<close>

theorem log_alert_tier_counterexample:
  "map alertType (alerts (snd (log_handler example_env (ddos_body 0.8999) empty_store)))
     = [''CRITICAL'']"
  by (simp add: log_eval)

text \<open>
  C2, amended. Every alert created by \<^verbatim>\<open>/log\<close> is labelled \<^verbatim>\<open>CRITICAL\<close> if and only if the
  confidence is at least 0.8, and \<^verbatim>\<open>HIGH\<close> for every confidence from 0.5 up to, not
  including, 0.8. So 0.9 and 0.8999 both give \<^verbatim>\<open>CRITICAL\<close>.
\<close>

theorem log_alert_tier:
  assumes "log_sample_persisted e b s" and "Alert_create_op \<notin> unreachable e"
    and "is_attack b = Some True" and "confidence b = Some c" and "0.5 \<le> c"
  shows "\<exists>a. alerts (snd (log_handler e b s)) = alerts s @ [a] \<and>
              (alertType a = ''CRITICAL'' \<longleftrightarrow> 0.8 \<le> c) \<and>
              (alertType a = ''HIGH'' \<longleftrightarrow> c < 0.8)"
  using assms
  by (auto simp: log_handler_alerts log_sample_persisted_def truthy_flag_def num_ge_def
        log_alert_values_def Alert_defaults_def
        split: sum.splits prod.splits)

theorem log_alert_tier_witness:
  "log_sample_persisted example_env (ddos_body 0.9) empty_store \<and>
   Alert_create_op \<notin> unreachable example_env \<and>
   is_attack (ddos_body 0.9) = Some True \<and> confidence (ddos_body 0.9) = Some 0.9 \<and>
   (\<exists>a. alerts (snd (log_handler example_env (ddos_body 0.9) empty_store)) = [a] \<and>
        alertType a = ''CRITICAL'')"
proof -
  have p: "log_sample_persisted example_env (ddos_body 0.9) empty_store"
    by (rule ddos_persisted)
  have r: "Alert_create_op \<notin> unreachable example_env"
    by (simp add: example_env_def)
  have f: "is_attack (ddos_body 0.9) = Some True" and c: "confidence (ddos_body 0.9) = Some 0.9"
    by (simp_all add: ddos_body_def)
  have g: "(0.5::real) \<le> 0.9" by simp
  show ?thesis
    using log_alert_tier [OF p r f c g] p r f c
    by (auto simp: empty_store_def)
qed

text \<open>
  C6 as stated fails: a request with the attack flag set and \<^verbatim>\<open>state: "SUSPICIOUS"\<close> is stored
  with \<^verbatim>\<open>trafficState\<close> \<^verbatim>\<open>suspicious\<close>, not \<^verbatim>\<open>attack\<close>.
\<close>

theorem log_traffic_state_counterexample:
  "map trafficState
     (traffic_logs (snd (log_handler example_env
        ((ddos_body 0.59)\<lparr>state := Some ''SUSPICIOUS''\<rparr>) empty_store)))
     = [''suspicious'']"
  by (simp add: log_eval)

text \<open>
  C6, amended. For every sample persisted by \<^verbatim>\<open>/log\<close>, \<^verbatim>\<open>attackType\<close> is the predicted label,
  and absent when the label is \<^verbatim>\<open>BENIGN\<close>. \<^verbatim>\<open>trafficState\<close> is \<^verbatim>\<open>attack\<close> when the attack flag
  is true and \<^verbatim>\<open>normal\<close> otherwise, provided the request's \<^verbatim>\<open>state\<close> is missing, empty or
  \<^verbatim>\<open>active\<close> in any letter case; for any other \<^verbatim>\<open>state\<close> it is that state in lower case.
\<close>

theorem log_traffic_state:
  assumes "log_sample_persisted e b s"
  shows "\<exists>t. traffic_logs (snd (log_handler e b s)) = traffic_logs s @ [t] \<and>
              attackType t = (if predicted_class b = Some ''BENIGN'' then None
                              else predicted_class b) \<and>
              (state b = None \<or> state b = Some [] \<or>
               (state b = Some w \<and> toLowerCase w = ''active'')
                 \<longrightarrow> trafficState t = (if is_attack b = Some True then ''attack'' else ''normal'')) \<and>
              (state b = Some w \<and> w \<noteq> [] \<and> toLowerCase w \<noteq> ''active''
                 \<longrightarrow> trafficState t = toLowerCase w)"
proof -
  from assms obtain t s1 where c: "TrafficLog_create e (log_traffic_values b) s = Inr (t, s1)"
    by (auto simp: log_sample_persisted_def split: sum.splits)
  then have t: "t = (log_traffic_values b)
                     \<lparr>id_traffic := Suc (traffic_seq s), timestamp := now_traffic e\<rparr>"
    by (simp add: TrafficLog_create_Inr)
  have l: "traffic_logs (snd (log_handler e b s)) = traffic_logs s @ [t]"
    by (simp add: log_handler_traffic_logs c)
  have a: "attackType t = (if predicted_class b = Some ''BENIGN'' then None
                           else predicted_class b)"
    by (simp add: t log_traffic_values_def)
  have u: "state b = None \<or> state b = Some [] \<or>
           (state b = Some w \<and> toLowerCase w = ''active'')
             \<longrightarrow> trafficState t = (if is_attack b = Some True then ''attack'' else ''normal'')"
    by (cases "is_attack b")
       (auto simp: t log_traffic_values_def truthy_flag_def truthy_string_def toLowerCase_def)
  have v: "state b = Some w \<and> w \<noteq> [] \<and> toLowerCase w \<noteq> ''active''
             \<longrightarrow> trafficState t = toLowerCase w"
    by (simp add: t log_traffic_values_def truthy_string_def)
  from l a u v show ?thesis by blast
qed

theorem log_traffic_state_witness:
  "log_sample_persisted example_env (ddos_body 0.59) empty_store \<and>
   state (ddos_body 0.59) = Some ''ACTIVE'' \<and> toLowerCase ''ACTIVE'' = ''active'' \<and>
   (\<exists>t. traffic_logs (snd (log_handler example_env (ddos_body 0.59) empty_store)) = [t] \<and>
        attackType t = Some ''DDoS'' \<and> trafficState t = ''attack'')"
proof -
  have p: "log_sample_persisted example_env (ddos_body 0.59) empty_store"
    by (rule ddos_persisted)
  have a: "toLowerCase ''ACTIVE'' = ''active''"
    by (simp add: toLowerCase_def toLowerCase_char_def)
  have b: "state (ddos_body 0.59) = Some ''ACTIVE''"
    and c: "predicted_class (ddos_body 0.59) = Some ''DDoS''"
    and d: "is_attack (ddos_body 0.59) = Some True"
    and e: "traffic_logs empty_store = []"
    by (simp_all add: ddos_body_def empty_store_def)
  from log_traffic_state [OF p, of "''ACTIVE''"] p a b
  show ?thesis
    by (simp only: a b c d e) auto
qed

text \<open>
  C5. The claim is what the \<^verbatim>\<open>autoBlocked\<close> column is for, and the handler misses it: at
  confidence 0.95 the request blocks \<^verbatim>\<open>192.168.1.100\<close>, and the alert it created says
  \<^verbatim>\<open>autoBlocked = false\<close>. \<^verbatim>\<open>Alert.create\<close> is called before the block and without the
  attribute, and the alert is never updated.
\<close>

theorem log_autoBlocked_stays_false:
  "map autoBlocked (alerts (snd (log_handler example_env (ddos_body 0.95) empty_store)))
     = [False] \<and>
   map ipAddress (blocked_ips (snd (log_handler example_env (ddos_body 0.95) empty_store)))
     = [Some ''192.168.1.100'']"
  by (simp add: log_eval)




text \<open>
  C9. Once \<^verbatim>\<open>TrafficLog.create\<close> has succeeded, a failure of \<^verbatim>\<open>Alert.create\<close>, of the lookup of
  the active block or of \<^verbatim>\<open>BlockedIP.create\<close> is answered with status 500 and \<^verbatim>\<open>LogError\<close>
  carrying that error, and the sample stays in the store as it was written: the traffic
  logs at the end are those before the request followed by the new row.
\<close>

theorem log_failure_keeps_sample:
  assumes "TrafficLog_create e (log_traffic_values b) s = Inr (t, s1)"
    and "truthy_flag (is_attack b)" and "num_ge (confidence b) 0.5"
  shows "(Alert_create e (log_alert_values b t) s1 = Inl err \<longrightarrow>
            log_handler e b s =
              (Responded (Log_failed 500 ''LogError'' ''Failed to log traffic'' err) [], s1) \<and>
            traffic_logs s1 = traffic_logs s @ [t]) \<and>
         (Alert_create e (log_alert_values b t) s1 = Inr (a, s2) \<and> num_ge (confidence b) 0.7 \<and>
          (BlockedIP_findOne_active e (src_ip b) s2 = Inl err \<or>
           BlockedIP_findOne_active e (src_ip b) s2 = Inr None \<and>
           BlockedIP_create e (log_block_values e b) s2 = Inl err) \<longrightarrow>
            log_handler e b s =
              (Responded (Log_failed 500 ''LogError'' ''Failed to log traffic'' err) [], s2) \<and>
            traffic_logs s2 = traffic_logs s @ [t])"
  using assms
  by (auto simp: log_handler_sequential log_catch_def
        dest!: TrafficLog_create_Inr Alert_create_Inr)

theorem log_failure_keeps_sample_witness:
  "(\<exists>t s1. TrafficLog_create (example_env\<lparr>unreachable := {Alert_create_op}\<rparr>)
              (log_traffic_values (ddos_body 0.95)) empty_store = Inr (t, s1) \<and>
           Alert_create (example_env\<lparr>unreachable := {Alert_create_op}\<rparr>)
              (log_alert_values (ddos_body 0.95) t) s1 = Inl ConnectionError \<and>
           log_handler (example_env\<lparr>unreachable := {Alert_create_op}\<rparr>) (ddos_body 0.95)
              empty_store =
             (Responded (Log_failed 500 ''LogError'' ''Failed to log traffic'' ConnectionError) [],
              s1) \<and>
           traffic_logs s1 = [t])"
proof -
  let ?e = "example_env\<lparr>unreachable := {Alert_create_op}\<rparr>"
  obtain t s1 where c: "TrafficLog_create ?e (log_traffic_values (ddos_body 0.95)) empty_store
                         = Inr (t, s1)"
    by (simp add: log_eval)
  have f: "truthy_flag (is_attack (ddos_body 0.95))"
    and g: "num_ge (confidence (ddos_body 0.95)) 0.5"
    by (simp_all add: ddos_body_def truthy_flag_def num_ge_def)
  have a: "Alert_create ?e (log_alert_values (ddos_body 0.95) t) s1 = Inl ConnectionError"
    by (simp add: Alert_create_log_values)
  from log_failure_keeps_sample [OF c f g, of ConnectionError] a c
  show ?thesis
    by (auto simp: empty_store_def)
qed

subsection \<open>The unique index under any interleaving\<close>

lemma BlockedIP_create_ip_unique:
  "ip_unique s \<Longrightarrow> BlockedIP_create e v s = Inr (r, s1) \<Longrightarrow> ip_unique s1"
  by (auto simp: ip_unique_def dest!: BlockedIP_create_Inr)

lemma log_step_ip_unique:
  "ip_unique s \<Longrightarrow> log_step e b pc s = (pc', s') \<Longrightarrow> ip_unique s'"
proof (cases pc)
  case Await_TrafficLog_create
  assume "ip_unique s" "log_step e b pc s = (pc', s')"
  with Await_TrafficLog_create show ?thesis
    by (auto simp: ip_unique_def dest!: TrafficLog_create_Inr
          split: sum.splits prod.splits if_splits)
next
  case (Await_Alert_create t)
  assume "ip_unique s" "log_step e b pc s = (pc', s')"
  with Await_Alert_create show ?thesis
    by (auto simp: ip_unique_def dest!: Alert_create_Inr
          split: sum.splits prod.splits if_splits)
next
  case (Await_BlockedIP_findOne t a)
  assume "ip_unique s" "log_step e b pc s = (pc', s')"
  with Await_BlockedIP_findOne show ?thesis
    by (auto split: sum.splits if_splits)
next
  case (Await_BlockedIP_create t a)
  assume "ip_unique s" "log_step e b pc s = (pc', s')"
  with Await_BlockedIP_create show ?thesis
    by (auto dest: BlockedIP_create_ip_unique split: sum.splits prod.splits)
next
  case (Responded r evs)
  assume "ip_unique s" "log_step e b pc s = (pc', s')"
  with Responded show ?thesis by simp
qed

lemma interleave_ip_unique:
  "ip_unique s \<Longrightarrow> interleave reqs sched (pcs, s) = (pcs', s') \<Longrightarrow> ip_unique s'"
proof (induction sched arbitrary: pcs s)
  case Nil
  then show ?case by simp
next
  case (Cons i sched)
  show ?case
  proof (cases "i < length reqs \<and> i < length pcs")
    case True
    obtain pc1 s1 where st: "log_step (fst (reqs ! i)) (snd (reqs ! i)) (pcs ! i) s = (pc1, s1)"
      by (cases "log_step (fst (reqs ! i)) (snd (reqs ! i)) (pcs ! i) s")
    have u: "ip_unique s1"
      using Cons.prems(1) st by (rule log_step_ip_unique)
    from Cons.prems(2) True st have "interleave reqs sched (pcs[i := pc1], s1) = (pcs', s')"
      by simp
    with u show ?thesis by (rule Cons.IH)
  next
    case False
    with Cons.prems(2) have "interleave reqs sched (pcs, s) = (pcs', s')"
      by auto
    with Cons.prems(1) show ?thesis by (rule Cons.IH)
  qed
qed

lemma distinct_map_filter_le_1:
  "distinct (map f xs) \<Longrightarrow> length (filter (\<lambda>r. f r = k \<and> P r) xs) \<le> 1"
proof (induction xs)
  case Nil
  then show ?case by simp
next
  case (Cons x xs)
  from Cons.prems have "f x \<notin> f ` set xs" by simp
  then have "\<forall>r\<in>set xs. f r \<noteq> f x" by (auto simp: image_iff)
  then have "f x = k \<Longrightarrow> filter (\<lambda>r. f r = k \<and> P r) xs = []"
    by (auto simp: filter_empty_conv)
  with Cons show ?case by auto
qed

lemma ip_unique_rows: "ip_unique s \<Longrightarrow> length (rows_of_ip ip s) \<le> 1"
  using distinct_map_filter_le_1 [of ipAddress "blocked_ips s" ip "\<lambda>r. True"]
  by (simp add: ip_unique_def rows_of_ip_def)

lemma ip_unique_active: "ip_unique s \<Longrightarrow> length (active_blocks ip s) \<le> 1"
  using distinct_map_filter_le_1 [of ipAddress "blocked_ips s" ip "\<lambda>r. unblockedAt r = None"]
  by (simp add: ip_unique_def active_blocks_def)

text \<open>With the index in force, a lifted block hides its address from the handler's lookup.\<close>

lemma lifted_row_not_found:
  assumes "ip_unique s" and "r \<in> set (blocked_ips s)" and "ipAddress r = ip"
    and "unblockedAt r \<noteq> None"
  shows "find (\<lambda>r. ipAddress r = ip \<and> unblockedAt r = None) (blocked_ips s) = None"
proof -
  have "\<And>x. x \<in> set (blocked_ips s) \<Longrightarrow> ipAddress x = ip \<Longrightarrow> x = r"
    using assms(1-3) by (auto simp: ip_unique_def distinct_map inj_on_def)
  with assms(4) show ?thesis
    by (auto simp: find_None_iff)
qed

lemma BlockedIP_create_conflict:
  assumes "r \<in> set (blocked_ips s)" and "ipAddress r = ipAddress v" and "ipAddress v \<noteq> None"
    and "BlockedIP_create_op \<notin> unreachable e" and "blockType v = ''temporary''"
  shows "BlockedIP_create e v s = Inl (UniqueConstraintError ''ip_address must be unique'')"
proof -
  from assms(1) have "ipAddress r \<in> ipAddress ` set (blocked_ips s)"
    by (rule imageI)
  with assms(2) have "ipAddress v \<in> set (map ipAddress (blocked_ips s))"
    by simp
  with assms(3-5) show ?thesis
    by (simp add: BlockedIP_create_def)
qed

section \<open>Claims about automatic blocks\<close>

lemma active_blocks_empty_iff:
  "active_blocks ip s = [] \<longleftrightarrow>
     find (\<lambda>r. ipAddress r = ip \<and> unblockedAt r = None) (blocked_ips s) = None"
  by (auto simp: active_blocks_def filter_empty_conv find_None_iff)

lemma rows_of_ip_empty_iff: "rows_of_ip ip s = [] \<longleftrightarrow> ip \<notin> set (map ipAddress (blocked_ips s))"
  by (auto simp: rows_of_ip_def filter_empty_conv)

lemma log_handler_blocks_when_free:
  assumes "log_sample_persisted e b s" and "truthy_flag (is_attack b)"
    and "num_ge (confidence b) 0.7" and "unreachable e = {}" and "rows_of_ip (src_ip b) s = []"
  shows "blocked_ips (snd (log_handler e b s)) =
           blocked_ips s @ [(log_block_values e b)\<lparr>id_block := uuid_block e, blockedAt := now_block e\<rparr>]"
proof -
  from assms(1) obtain t s1 where c: "TrafficLog_create e (log_traffic_values b) s = Inr (t, s1)"
    by (auto simp: log_sample_persisted_def split: sum.splits)
  then have s1: "blocked_ips s1 = blocked_ips s"
    by (auto dest!: TrafficLog_create_Inr)
  from c have ip: "src_ip b \<noteq> None"
    by (auto simp: TrafficLog_create_def log_traffic_values_def split: if_splits)
  from assms(3) have h: "num_ge (confidence b) 0.5"
    by (auto simp: num_ge_def split: option.splits)
  obtain a s2 where a: "Alert_create e (log_alert_values b t) s1 = Inr (a, s2)"
    and s2: "blocked_ips s2 = blocked_ips s1"
    using assms(4) by (simp add: Alert_create_log_values)
  from assms(5) have free: "src_ip b \<notin> set (map ipAddress (blocked_ips s2))"
    by (simp add: rows_of_ip_empty_iff s1 s2)
  then have "\<forall>x\<in>set (blocked_ips s2). ipAddress x \<noteq> src_ip b"
    by (auto simp: image_iff)
  then have f: "BlockedIP_findOne_active e (src_ip b) s2 = Inr None"
    using assms(4) by (auto simp: BlockedIP_findOne_active_def find_None_iff)
  have k: "BlockedIP_create e (log_block_values e b) s2 =
             Inr ((log_block_values e b)\<lparr>id_block := uuid_block e, blockedAt := now_block e\<rparr>,
                  s2\<lparr>blocked_ips := blocked_ips s2 @
                       [(log_block_values e b)\<lparr>id_block := uuid_block e, blockedAt := now_block e\<rparr>]\<rparr>)"
    using free ip assms(4)
    by (simp add: BlockedIP_create_def log_block_values_def BlockedIP_defaults_def Let_def)
  show ?thesis
    using assms(2,3) h
    by (simp add: log_handler_sequential c a f k log_finish_def s1 s2)
qed

text \<open>
  C3 as stated fails where it ties the expiry to the block's own creation time: the handler
  reads \<^verbatim>\<open>Date.now()\<close> for \<^verbatim>\<open>expiresAt\<close>, the store reads its \<^verbatim>\<open>NOW\<close> default for \<^verbatim>\<open>blockedAt\<close>
  afterwards, and when the clock has moved in between, here by 5 ms, \<^verbatim>\<open>expiresAt\<close> is not
  \<^verbatim>\<open>blockedAt\<close> plus 24 hours.
\<close>

theorem log_block_expiry_counterexample:
  "map expires_24h_after_blockedAt
     (blocked_ips (snd (log_handler example_env (ddos_body 0.95) empty_store))) = [False]"
  by (simp add: log_eval expires_24h_after_blockedAt_def)

text \<open>
  C3, amended. A request to \<^verbatim>\<open>/log\<close> changes the blocked addresses only by appending one row,
  and only when the attack flag is true, the confidence is at least 0.7 and the source IP
  has no active block (\<^verbatim>\<open>unblockedAt\<close> null) before the request. The new row is for the
  source IP and is active. Its \<^verbatim>\<open>expiresAt\<close> is the time the handler reads with \<^verbatim>\<open>Date.now()\<close>
  plus 24 hours; its \<^verbatim>\<open>blockedAt\<close> is the store's \<^verbatim>\<open>NOW\<close>. So \<^verbatim>\<open>expiresAt\<close> is \<^verbatim>\<open>blockedAt\<close> plus
  24 hours exactly when the two readings agree, and is no later than that when the clock
  has not run backwards between them. With a missing confidence or one below 0.7 no row is
  created. When the store answers and holds no row for the source IP, the block is created.
\<close>

theorem log_auto_block:
  "(blocked_ips (snd (log_handler e b s)) \<noteq> blocked_ips s \<longrightarrow>
      is_attack b = Some True \<and> num_ge (confidence b) 0.7 \<and>
      active_blocks (src_ip b) s = [] \<and>
      (\<exists>blk. blocked_ips (snd (log_handler e b s)) = blocked_ips s @ [blk] \<and>
             ipAddress blk = src_ip b \<and> unblockedAt blk = None \<and>
             expiresAt blk = Some (date_now e + 24 * 60 * 60 * 1000) \<and>
             blockedAt blk = now_block e \<and>
             (expires_24h_after_blockedAt blk \<longleftrightarrow> date_now e = now_block e) \<and>
             (date_now e \<le> now_block e \<longrightarrow>
                (\<exists>x. expiresAt blk = Some x \<and> x \<le> blockedAt blk + 24 * 60 * 60 * 1000)))) \<and>
   (confidence b = None \<or> (confidence b = Some c \<and> c < 0.7) \<longrightarrow>
      blocked_ips (snd (log_handler e b s)) = blocked_ips s) \<and>
   (log_sample_persisted e b s \<and> is_attack b = Some True \<and> confidence b = Some c \<and>
    0.7 \<le> c \<and> unreachable e = {} \<and> rows_of_ip (src_ip b) s = [] \<longrightarrow>
      blocked_ips (snd (log_handler e b s)) \<noteq> blocked_ips s)"
proof (intro conjI impI)
  let ?blk = "(log_block_values e b)\<lparr>id_block := uuid_block e, blockedAt := now_block e\<rparr>"
  assume n: "blocked_ips (snd (log_handler e b s)) \<noteq> blocked_ips s"
  with log_handler_blocked_ips [of e b s]
  have *: "truthy_flag (is_attack b)" "num_ge (confidence b) 0.7"
    "find (\<lambda>r. ipAddress r = src_ip b \<and> unblockedAt r = None) (blocked_ips s) = None"
    "blocked_ips (snd (log_handler e b s)) = blocked_ips s @ [?blk]"
    by simp_all
  from *(1) show "is_attack b = Some True"
    by (simp add: truthy_flag_def split: option.splits)
  from *(2) show "num_ge (confidence b) 0.7" .
  from *(3) show "active_blocks (src_ip b) s = []"
    by (simp add: active_blocks_empty_iff)
  have f: "ipAddress ?blk = src_ip b" "unblockedAt ?blk = None"
    "expiresAt ?blk = Some (date_now e + 24 * 60 * 60 * 1000)" "blockedAt ?blk = now_block e"
    by (simp_all add: log_block_values_def BlockedIP_defaults_def)
  have g: "expires_24h_after_blockedAt ?blk \<longleftrightarrow> date_now e = now_block e"
    unfolding expires_24h_after_blockedAt_def f by simp
  have k: "date_now e \<le> now_block e \<longrightarrow>
             (\<exists>x. expiresAt ?blk = Some x \<and> x \<le> blockedAt ?blk + 24 * 60 * 60 * 1000)"
    unfolding f by simp
  from *(4) f g k
  show "\<exists>blk. blocked_ips (snd (log_handler e b s)) = blocked_ips s @ [blk] \<and>
             ipAddress blk = src_ip b \<and> unblockedAt blk = None \<and>
             expiresAt blk = Some (date_now e + 24 * 60 * 60 * 1000) \<and>
             blockedAt blk = now_block e \<and>
             (expires_24h_after_blockedAt blk \<longleftrightarrow> date_now e = now_block e) \<and>
             (date_now e \<le> now_block e \<longrightarrow>
                (\<exists>x. expiresAt blk = Some x \<and> x \<le> blockedAt blk + 24 * 60 * 60 * 1000))"
    by (intro exI [of _ ?blk] conjI)
next
  assume "confidence b = None \<or> (confidence b = Some c \<and> c < 0.7)"
  then have "\<not> num_ge (confidence b) 0.7"
    by (auto simp: num_ge_def)
  with log_handler_blocked_ips [of e b s]
  show "blocked_ips (snd (log_handler e b s)) = blocked_ips s"
    by simp
next
  assume h: "log_sample_persisted e b s \<and> is_attack b = Some True \<and> confidence b = Some c \<and>
    0.7 \<le> c \<and> unreachable e = {} \<and> rows_of_ip (src_ip b) s = []"
  then have "truthy_flag (is_attack b)" "num_ge (confidence b) 0.7"
    by (simp_all add: truthy_flag_def num_ge_def)
  with h show "blocked_ips (snd (log_handler e b s)) \<noteq> blocked_ips s"
    by (simp add: log_handler_blocks_when_free)
qed

theorem log_auto_block_witness:
  "log_sample_persisted example_env (ddos_body 0.95) empty_store \<and>
   is_attack (ddos_body 0.95) = Some True \<and> confidence (ddos_body 0.95) = Some 0.95 \<and>
   unreachable example_env = {} \<and> rows_of_ip (src_ip (ddos_body 0.95)) empty_store = [] \<and>
   date_now example_env \<le> now_block example_env \<and>
   (\<exists>blk. blocked_ips (snd (log_handler example_env (ddos_body 0.95) empty_store)) = [blk] \<and>
          ipAddress blk = Some ''192.168.1.100'' \<and> unblockedAt blk = None \<and>
          expiresAt blk = Some 1700086400000 \<and> blockedAt blk = 1700000000005 \<and>
          \<not> expires_24h_after_blockedAt blk) \<and>
   blocked_ips (snd (log_handler example_env (ddos_body 0.59) empty_store)) = []"
proof -
  have p: "log_sample_persisted example_env (ddos_body 0.95) empty_store"
    by (rule ddos_persisted)
  have f: "is_attack (ddos_body 0.95) = Some True"
    and c: "confidence (ddos_body 0.95) = Some 0.95"
    and c': "confidence (ddos_body 0.59) = Some 0.59"
    by (simp_all add: ddos_body_def)
  have u: "unreachable example_env = {}" and d: "date_now example_env = 1700000000000"
    and n: "now_block example_env = 1700000000005"
    by (simp_all add: example_env_def)
  have r: "rows_of_ip (src_ip (ddos_body 0.95)) empty_store = []"
    and z: "blocked_ips empty_store = []"
    by (simp_all add: rows_of_ip_def empty_store_def)
  from log_auto_block [of example_env "ddos_body 0.95" empty_store "0.95"]
    log_auto_block [of example_env "ddos_body 0.59" empty_store "0.59"] p f c c' u r
  show ?thesis
    by (auto simp: z d n ddos_body_def)
qed

lemmas interleave_eval =
  interleave.simps log_step.simps nth_Cons_0 nth_Cons_Suc list_update_code One_nat_def
  TrafficLog_create_def Alert_create_def BlockedIP_findOne_active_def
  BlockedIP_create_def log_traffic_values_def log_alert_values_def log_block_values_def
  TrafficLog_defaults_def Alert_defaults_def BlockedIP_defaults_def log_finish_def log_catch_def
  truthy_flag_def truthy_string_def num_ge_def template_string_def toLowerCase_def
  toLowerCase_char_def ddos_body_def example_env_def example_env2_def empty_store_def Let_def
  integer_column_value_def

text \<open>Under every interleaving of requests an address has at most one active block.\<close>

lemma interleave_one_active_block:
  assumes "ip_unique s" and "interleave reqs sched (pcs, s) = (pcs', s')"
  shows "length (active_blocks ip s') \<le> 1"
proof -
  from assms have "ip_unique s'"
    by (rule interleave_ip_unique)
  then show ?thesis
    by (rule ip_unique_active)
qed

text \<open>
  C4. At most one active BlockedIP per IP address holds in every reachable state, and
  duplicate attempts leave exactly one active record. The handler misses the rest of the
  claim, that a duplicate-create conflict is a no-op and not an ingestion failure: its
  lookup of an active block and its \<^verbatim>\<open>BlockedIP.create\<close> are two awaits with nothing to catch
  the conflict. Two requests for one source IP run concurrently on the empty store, and
  both look for an active block before either creates one. The first creates the block; the
  second meets the unique index and its caller gets 500 \<^verbatim>\<open>LogError\<close>, with its sample and its
  alert already stored. One active block for the address exists at the end.
\<close>

theorem log_duplicate_block_race:
  "last (fst (interleave
      [(example_env, ddos_body 0.95), (example_env2, ddos_body 0.95)]
      [0, 0, 0, 1, 1, 1, 0, 1]
      ([Await_TrafficLog_create, Await_TrafficLog_create], empty_store)))
   = Responded (Log_failed 500 ''LogError'' ''Failed to log traffic''
                  (UniqueConstraintError ''ip_address must be unique'')) [] \<and>
   length (active_blocks (Some ''192.168.1.100'') (snd (interleave
      [(example_env, ddos_body 0.95), (example_env2, ddos_body 0.95)]
      [0, 0, 0, 1, 1, 1, 0, 1]
      ([Await_TrafficLog_create, Await_TrafficLog_create], empty_store)))) = 1 \<and>
   length (traffic_logs (snd (interleave
      [(example_env, ddos_body 0.95), (example_env2, ddos_body 0.95)]
      [0, 0, 0, 1, 1, 1, 0, 1]
      ([Await_TrafficLog_create, Await_TrafficLog_create], empty_store)))) = 2 \<and>
   length (alerts (snd (interleave
      [(example_env, ddos_body 0.95), (example_env2, ddos_body 0.95)]
      [0, 0, 0, 1, 1, 1, 0, 1]
      ([Await_TrafficLog_create, Await_TrafficLog_create], empty_store)))) = 2"
  by (simp add: interleave_eval active_blocks_def)

text \<open>
  C10. The index on \<^verbatim>\<open>ipAddress\<close> covers every row, lifted or not: under every interleaving
  of \<^verbatim>\<open>/log\<close> requests an address has at most one BlockedIP row, and creating a block for an
  address that has a row fails with the constraint violation and adds nothing. When that
  row is a lifted block (\<^verbatim>\<open>unblockedAt\<close> set), the handler's lookup of an active block finds
  none, the handler goes on to create, and the request ends in 500 \<^verbatim>\<open>LogError\<close>.
\<close>

theorem blocked_ip_unique_over_all_rows:
  assumes "ip_unique s" and "interleave reqs sched (pcs, s) = (pcs', s')"
  shows "length (rows_of_ip ip s') \<le> 1 \<and>
         (r \<in> set (blocked_ips s') \<and> ipAddress r = src_ip b \<and> src_ip b \<noteq> None \<and>
          BlockedIP_create_op \<notin> unreachable e \<longrightarrow>
            BlockedIP_create e (log_block_values e b) s' =
              Inl (UniqueConstraintError ''ip_address must be unique'')) \<and>
         (r \<in> set (blocked_ips s') \<and> ipAddress r = src_ip b \<and> src_ip b \<noteq> None \<and>
          unblockedAt r \<noteq> None \<and> unreachable e = {} \<longrightarrow>
            log_step e b (Await_BlockedIP_findOne t a) s' = (Await_BlockedIP_create t a, s') \<and>
            log_step e b (Await_BlockedIP_create t a) s' =
              (Responded (Log_failed 500 ''LogError'' ''Failed to log traffic''
                            (UniqueConstraintError ''ip_address must be unique'')) [], s'))"
proof (intro conjI impI)
  from assms have u: "ip_unique s'"
    by (rule interleave_ip_unique)
  then show "length (rows_of_ip ip s') \<le> 1"
    by (rule ip_unique_rows)
  {
    assume h: "r \<in> set (blocked_ips s') \<and> ipAddress r = src_ip b \<and> src_ip b \<noteq> None \<and>
               BlockedIP_create_op \<notin> unreachable e"
    then show "BlockedIP_create e (log_block_values e b) s' =
                 Inl (UniqueConstraintError ''ip_address must be unique'')"
      by (intro BlockedIP_create_conflict [of r])
         (simp_all add: log_block_values_def BlockedIP_defaults_def)
  }
  {
    assume h: "r \<in> set (blocked_ips s') \<and> ipAddress r = src_ip b \<and> src_ip b \<noteq> None \<and>
               unblockedAt r \<noteq> None \<and> unreachable e = {}"
    then have "find (\<lambda>r. ipAddress r = src_ip b \<and> unblockedAt r = None) (blocked_ips s') = None"
      using u by (intro lifted_row_not_found [of s' r]) simp_all
    with h show "log_step e b (Await_BlockedIP_findOne t a) s' = (Await_BlockedIP_create t a, s')"
      by (simp add: BlockedIP_findOne_active_def)
    from h have "BlockedIP_create e (log_block_values e b) s' =
                   Inl (UniqueConstraintError ''ip_address must be unique'')"
      by (intro BlockedIP_create_conflict [of r])
         (simp_all add: log_block_values_def BlockedIP_defaults_def)
    then show "log_step e b (Await_BlockedIP_create t a) s' =
              (Responded (Log_failed 500 ''LogError'' ''Failed to log traffic''
                            (UniqueConstraintError ''ip_address must be unique'')) [], s')"
      by (simp add: log_catch_def)
  }
qed

theorem blocked_ip_unique_over_all_rows_witness:
  "ip_unique lifted_block_store \<and>
   map unblockedAt (blocked_ips lifted_block_store) = [Some 1600000500000] \<and>
   src_ip (ddos_body 0.95) = Some ''192.168.1.100'' \<and> unreachable example_env = {} \<and>
   fst (log_handler example_env (ddos_body 0.95) lifted_block_store)
     = Responded (Log_failed 500 ''LogError'' ''Failed to log traffic''
                    (UniqueConstraintError ''ip_address must be unique'')) [] \<and>
   length (rows_of_ip (Some ''192.168.1.100'')
     (snd (interleave [(example_env, ddos_body 0.95)] [0, 0]
             ([Await_TrafficLog_create], lifted_block_store)))) = 1 \<and>
   log_step example_env (ddos_body 0.95) (Await_BlockedIP_create
        (log_traffic_values (ddos_body 0.95))
        (log_alert_values (ddos_body 0.95) (log_traffic_values (ddos_body 0.95))))
     (snd (interleave [(example_env, ddos_body 0.95)] [0, 0]
             ([Await_TrafficLog_create], lifted_block_store)))
     = (Responded (Log_failed 500 ''LogError'' ''Failed to log traffic''
                     (UniqueConstraintError ''ip_address must be unique'')) [],
        snd (interleave [(example_env, ddos_body 0.95)] [0, 0]
               ([Await_TrafficLog_create], lifted_block_store)))"
proof -
  define run where "run = interleave [(example_env, ddos_body 0.95)] [0, 0]
                            ([Await_TrafficLog_create], lifted_block_store)"
  define S where "S = snd run"
  define r where "r = BlockedIP_defaults
              \<lparr> id_block := ''b-0000'', ipAddress := Some ''192.168.1.100'',
                reason := ''Manual block'', blockedAt := 1600000000000,
                unblockedAt := Some 1600000500000 \<rparr>"
  have u: "ip_unique lifted_block_store"
    by (simp add: ip_unique_def lifted_block_store_def empty_store_def)
  have e: "interleave [(example_env, ddos_body 0.95)] [0, 0]
             ([Await_TrafficLog_create], lifted_block_store) = (fst run, S)"
    by (simp add: S_def run_def)
  have m: "r \<in> set (blocked_ips S)"
    and k: "length (rows_of_ip (Some ''192.168.1.100'') S) = 1"
    by (simp_all add: S_def run_def r_def interleave_eval lifted_block_store_def rows_of_ip_def)
  have i: "ipAddress r = src_ip (ddos_body 0.95)" "src_ip (ddos_body 0.95) \<noteq> None"
    "unblockedAt r \<noteq> None" "unreachable example_env = {}"
    and j: "src_ip (ddos_body 0.95) = Some ''192.168.1.100''"
    by (simp_all add: ddos_body_def example_env_def r_def)
  have l: "map unblockedAt (blocked_ips lifted_block_store) = [Some 1600000500000]"
    by (simp add: lifted_block_store_def empty_store_def)
  from blocked_ip_unique_over_all_rows [OF u e, of "Some ''192.168.1.100''" r "ddos_body 0.95"
      example_env "log_traffic_values (ddos_body 0.95)"
      "log_alert_values (ddos_body 0.95) (log_traffic_values (ddos_body 0.95))"] m i
  have c: "log_step example_env (ddos_body 0.95) (Await_BlockedIP_create
        (log_traffic_values (ddos_body 0.95))
               (log_alert_values (ddos_body 0.95) (log_traffic_values (ddos_body 0.95)))) S
             = (Responded (Log_failed 500 ''LogError'' ''Failed to log traffic''
                             (UniqueConstraintError ''ip_address must be unique'')) [], S)"
    by blast
  have h: "fst (log_handler example_env (ddos_body 0.95) lifted_block_store)
             = Responded (Log_failed 500 ''LogError'' ''Failed to log traffic''
                            (UniqueConstraintError ''ip_address must be unique'')) []"
    by (simp add: log_eval lifted_block_store_def)
  from u l j i(4) h k c show ?thesis
    unfolding S_def run_def by (intro conjI)
qed


section \<open>Claims about /analyze\<close>

text \<open>\<^verbatim>\<open>/analyze\<close> never touches the blocked addresses.\<close>

lemma analyze_handler_blocked_ips:
  "blocked_ips (snd (analyze_handler e ml trafficData s)) = blocked_ips s"
  by (auto simp: analyze_handler_def dest!: TrafficLog_create_Inr Alert_create_Inr
        split: sum.splits prod.splits)





end
